theory Spec2Isabelle
  imports Complex_Main "HOL-Library.Multiset"
begin

section \<open>JavaScript numbers\<close>

text \<open>
  A JavaScript number is a finite value, one of the two infinities, or NaN. Finite
  values are taken as exact reals: rounding, overflow of finite arithmetic and the sign
  of zero are outside this development. What is kept is everything the analytics code
  can reach from finite inputs: division by zero gives an infinity or NaN, dividing by
  an infinity gives zero, and NaN is absorbing.
\<close>

datatype jsnum = Fin real | PInf | NInf | NaN

fun js_neg :: "jsnum \<Rightarrow> jsnum" where
  "js_neg (Fin a) = Fin (- a)"
| "js_neg PInf = NInf"
| "js_neg NInf = PInf"
| "js_neg NaN = NaN"

fun js_add :: "jsnum \<Rightarrow> jsnum \<Rightarrow> jsnum" where
  "js_add (Fin a) (Fin b) = Fin (a + b)"
| "js_add NaN _ = NaN"
| "js_add _ NaN = NaN"
| "js_add PInf NInf = NaN"
| "js_add NInf PInf = NaN"
| "js_add PInf _ = PInf"
| "js_add _ PInf = PInf"
| "js_add NInf _ = NInf"
| "js_add _ NInf = NInf"

definition js_sub :: "jsnum \<Rightarrow> jsnum \<Rightarrow> jsnum" where
  "js_sub a b = js_add a (js_neg b)"

definition signed_inf :: "bool \<Rightarrow> jsnum" where
  "signed_inf positive = (if positive then PInf else NInf)"

fun js_mul :: "jsnum \<Rightarrow> jsnum \<Rightarrow> jsnum" where
  "js_mul (Fin a) (Fin b) = Fin (a * b)"
| "js_mul NaN _ = NaN"
| "js_mul _ NaN = NaN"
| "js_mul (Fin a) PInf = (if a = 0 then NaN else signed_inf (0 < a))"
| "js_mul (Fin a) NInf = (if a = 0 then NaN else signed_inf (a < 0))"
| "js_mul PInf (Fin b) = (if b = 0 then NaN else signed_inf (0 < b))"
| "js_mul NInf (Fin b) = (if b = 0 then NaN else signed_inf (b < 0))"
| "js_mul PInf PInf = PInf"
| "js_mul NInf NInf = PInf"
| "js_mul PInf NInf = NInf"
| "js_mul NInf PInf = NInf"

text \<open>
  Division. A zero divisor is the positive zero here (the divisors of the analytics code
  come from an integer bin count and from a non-negative range).
\<close>

fun js_div :: "jsnum \<Rightarrow> jsnum \<Rightarrow> jsnum" where
  "js_div (Fin a) (Fin b) =
     (if b = 0 then (if a = 0 then NaN else signed_inf (0 < a)) else Fin (a / b))"
| "js_div NaN _ = NaN"
| "js_div _ NaN = NaN"
| "js_div (Fin a) PInf = Fin 0"
| "js_div (Fin a) NInf = Fin 0"
| "js_div PInf (Fin b) = signed_inf (0 \<le> b)"
| "js_div NInf (Fin b) = signed_inf (b < 0)"
| "js_div PInf PInf = NaN"
| "js_div PInf NInf = NaN"
| "js_div NInf PInf = NaN"
| "js_div NInf NInf = NaN"

fun Math_floor :: "jsnum \<Rightarrow> jsnum" where
  "Math_floor (Fin a) = Fin (of_int \<lfloor>a\<rfloor>)"
| "Math_floor x = x"

fun js_lt :: "jsnum \<Rightarrow> jsnum \<Rightarrow> bool" where
  "js_lt (Fin a) (Fin b) = (a < b)"
| "js_lt NaN _ = False"
| "js_lt _ NaN = False"
| "js_lt NInf NInf = False"
| "js_lt NInf _ = True"
| "js_lt _ NInf = False"
| "js_lt PInf _ = False"
| "js_lt _ PInf = True"

text \<open>
  \<open>Math.min(...)\<close> and \<open>Math.max(...)\<close>: the scan starts from the opposite infinity
  and NaN, once met, is the result.
\<close>

definition lower :: "jsnum \<Rightarrow> jsnum \<Rightarrow> jsnum" where
  "lower acc x = (if acc = NaN \<or> x = NaN then NaN else if js_lt x acc then x else acc)"

definition higher :: "jsnum \<Rightarrow> jsnum \<Rightarrow> jsnum" where
  "higher acc x = (if acc = NaN \<or> x = NaN then NaN else if js_lt acc x then x else acc)"

definition Math_min :: "jsnum list \<Rightarrow> jsnum" where
  "Math_min xs = foldl lower PInf xs"

definition Math_max :: "jsnum list \<Rightarrow> jsnum" where
  "Math_max xs = foldl higher NInf xs"

text \<open>Truthiness of a number: zero and NaN are falsy. \<open>a || b\<close> on numbers.\<close>

definition truthy :: "jsnum \<Rightarrow> bool" where
  "truthy x = (x \<noteq> Fin 0 \<and> x \<noteq> NaN)"

definition js_or :: "jsnum \<Rightarrow> jsnum \<Rightarrow> jsnum" where
  "js_or a b = (if truthy a then a else b)"

subsection \<open>Number.prototype.toFixed\<close>

fun digits :: "nat \<Rightarrow> string" where
  "digits n =
     (if n < 10 then [char_of (48 + n)] else digits (n div 10) @ [char_of (48 + n mod 10)])"

declare digits.simps [simp del]

text \<open>
  \<open>fixed_digits f x\<close>, for \<open>0 \<le> x < 10^21\<close>: the integer \<open>n\<close> nearest to
  \<open>x * 10^f\<close> (the larger one on a tie), written in decimal, padded on the left with
  zeros to \<open>f + 1\<close> digits, with a point before the last \<open>f\<close> digits.
\<close>

definition fixed_digits :: "nat \<Rightarrow> real \<Rightarrow> string" where
  "fixed_digits f x =
     (let n = nat \<lfloor>x * 10 ^ f + 1 / 2\<rfloor>;
          m = (if n = 0 then ''0'' else digits n);
          m = (if f \<noteq> 0 \<and> length m \<le> f then replicate (f + 1 - length m) CHR ''0'' @ m else m)
      in if f \<noteq> 0 then take (length m - f) m @ ''.'' @ drop (length m - f) m else m)"

text \<open>
  \<open>toFixed big f x\<close> is \<open>x.toFixed(f)\<close> for \<open>f \<le> 100\<close>. From \<open>10^21\<close> on the
  method falls back to the shortest-round-trip conversion of the number to a string,
  which depends on the binary representation: it is the parameter \<open>big\<close>.
\<close>

fun toFixed :: "(real \<Rightarrow> string) \<Rightarrow> nat \<Rightarrow> jsnum \<Rightarrow> string" where
  "toFixed big f (Fin x) =
     (let s = (if x < 0 then ''-'' else '''');
          x = (if x < 0 then - x else x);
          m = (if 10 ^ 21 \<le> x then big x else fixed_digits f x)
      in s @ m)"
| "toFixed big f PInf = ''Infinity''"
| "toFixed big f NInf = ''-Infinity''"
| "toFixed big f NaN = ''NaN''"

section \<open>The analysis page\<close>

text \<open>
  \<open>interface Trade { ticket: number; profit: number | null; open_time?: string }\<close>.
  A null profit and an absent \<open>open_time\<close> are \<open>None\<close>; a profit that is present is
  a finite number, as the rows come from the data store.
\<close>

record Trade =
  ticket :: int
  profit :: "real option"
  open_time :: "string option"

text \<open>\<open>t.profit || 0\<close>: null and zero are falsy.\<close>

definition profit_or_0 :: "real option \<Rightarrow> real" where
  "profit_or_0 p = (case p of None \<Rightarrow> 0 | Some v \<Rightarrow> if v \<noteq> 0 then v else 0)"

record Stats =
  total :: nat
  sum_s :: real
  avg :: real
  winRate :: real

definition computeStats :: "Trade list \<Rightarrow> Stats" where
  "computeStats trades =
     (let total = length trades;
          profits = map (\<lambda>t. profit_or_0 (profit t)) trades;
          sum = foldl (\<lambda>s v. s + v) 0 profits;
          avg = (if total \<noteq> 0 then sum / real total else 0);
          wins = length (filter (\<lambda>p. 0 \<le> p) profits);
          winRate = (if total \<noteq> 0 then (real wins / real total) * 100 else 0)
      in \<lparr>total = total, sum_s = sum, avg = avg, winRate = winRate\<rparr>)"

subsection \<open>The histogram\<close>

datatype js_error = RangeError

text \<open>
  An array element of \<open>counts\<close>: a count, NaN (what \<open>++\<close> leaves on an element that
  was not a number) or a hole of a sparse array.
\<close>

datatype cell = Count nat | NaN_cell | Hole

record Histogram =
  labels :: "string list"
  counts :: "cell list"

text \<open>
  \<open>new Array(n)\<close> throws a RangeError for a negative length. Lengths are not bounded
  above in this development (the engine's cap on array lengths and its memory are
  resources, not part of the computation).
\<close>

definition new_Array :: "int \<Rightarrow> js_error + cell list" where
  "new_Array n = (if n < 0 then Inl RangeError else Inr (replicate (nat n) Hole))"

definition fill :: "cell \<Rightarrow> cell list \<Rightarrow> cell list" where
  "fill v arr = map (\<lambda>_. v) arr"

text \<open>The separator of the template literal is an en dash, three bytes in UTF-8.\<close>

definition en_dash :: string where
  "en_dash = [CHR 0xE2, CHR 0x80, CHR 0x93]"

definition bucket_label :: "(real \<Rightarrow> string) \<Rightarrow> jsnum \<Rightarrow> jsnum \<Rightarrow> nat \<Rightarrow> string" where
  "bucket_label big mn binWidth i =
     (let a = js_add mn (js_mul (Fin (real i)) binWidth);
          b = js_add a binWidth
      in toFixed big 2 a @ en_dash @ toFixed big 2 b)"

definition bucket_index :: "int \<Rightarrow> jsnum \<Rightarrow> jsnum \<Rightarrow> real \<Rightarrow> jsnum" where
  "bucket_index bins mn binWidth p =
     Math_min [Fin (of_int (bins - 1)), Math_floor (js_div (js_sub (Fin p) mn) binWidth)]"

fun increment :: "cell \<Rightarrow> cell" where
  "increment (Count n) = Count (n + 1)"
| "increment NaN_cell = NaN_cell"
| "increment Hole = NaN_cell"

text \<open>
  \<open>counts[idx]++\<close>. A key that is a non-negative integer names an element: inside the
  array it is incremented, past the end the array grows up to it (the new element is
  \<open>undefined + 1\<close>, NaN). Any other key (negative, fractional, infinite, NaN) names an
  ordinary property of the array object: no element changes and the length stays.
\<close>

definition incr_at :: "cell list \<Rightarrow> jsnum \<Rightarrow> cell list" where
  "incr_at cs idx =
     (case idx of
        Fin r \<Rightarrow>
          if 0 \<le> r \<and> r = of_int \<lfloor>r\<rfloor> then
            (let k = nat \<lfloor>r\<rfloor>
             in if k < length cs then cs[k := increment (cs ! k)]
                else cs @ replicate (k - length cs) Hole @ [NaN_cell])
          else cs
      | _ \<Rightarrow> cs)"

definition bin_range :: "real list \<Rightarrow> jsnum" where
  "bin_range profits =
     js_or (js_sub (Math_max (map Fin profits)) (Math_min (map Fin profits))) (Fin 1)"

text \<open>
  \<open>makeHistogram(profits, bins = 10)\<close>. The page always passes \<open>bins\<close>, so the
  default is not part of the function here.
\<close>

definition makeHistogram :: "(real \<Rightarrow> string) \<Rightarrow> real list \<Rightarrow> int \<Rightarrow> js_error + Histogram" where
  "makeHistogram big profits bins =
     (if length profits = 0 then Inr \<lparr>labels = [], counts = []\<rparr>
      else
        let mn = Math_min (map Fin profits);
            range = bin_range profits;
            binWidth = js_div range (Fin (of_int bins))
        in case new_Array bins of
             Inl e \<Rightarrow> Inl e
           | Inr arr \<Rightarrow>
               let counts = fill (Count 0) arr;
                   labels = map (bucket_label big mn binWidth) [0..<length arr];
                   counts = foldl (\<lambda>cs p. incr_at cs (bucket_index bins mn binWidth p)) counts profits
               in Inr \<lparr>labels = labels, counts = counts\<rparr>)"

text \<open>
  The page's own uses: \<open>profits = trades.map(t => t.profit || 0)\<close> and
  \<open>histogram = makeHistogram(profits, bins)\<close>.
\<close>

definition profits_of :: "Trade list \<Rightarrow> real list" where
  "profits_of trades = map (\<lambda>t. profit_or_0 (profit t)) trades"

definition histogram :: "(real \<Rightarrow> string) \<Rightarrow> Trade list \<Rightarrow> int \<Rightarrow> js_error + Histogram" where
  "histogram big trades bins = makeHistogram big (profits_of trades) bins"

subsection \<open>The cumulative series\<close>

text \<open>
  The \<open>Date\<close> object is the platform's. What the page asks of it is a parameter: the
  time value of a date string in milliseconds, its rendering in the locale, its day of
  the month and its month (from zero). Date strings that do not parse (time value NaN)
  are outside the development: the order in which \<open>sort\<close> leaves them is
  implementation-defined.
\<close>

record DateFns =
  getTime :: "string \<Rightarrow> int"
  toLocaleString :: "string \<Rightarrow> string"
  getDate :: "string \<Rightarrow> nat"
  getMonth :: "string \<Rightarrow> nat"

text \<open>The loop over \<open>sorted\<close>, with the accumulator and the array built so far.\<close>

fun cum_loop :: "real \<Rightarrow> real list \<Rightarrow> Trade list \<Rightarrow> real list" where
  "cum_loop acc cum [] = cum"
| "cum_loop acc cum (s # ss) =
     (let acc = acc + profit_or_0 (profit s) in cum_loop acc (cum @ [acc]) ss)"

record Timeseries =
  fullLabels :: "string list"
  shortLabels :: "string list"
  cum :: "real list"

text \<open>\<open>filter(t => t.open_time)\<close>: an absent and an empty string are falsy.\<close>

definition has_open_time :: "Trade \<Rightarrow> bool" where
  "has_open_time t = (case open_time t of None \<Rightarrow> False | Some s \<Rightarrow> s \<noteq> [])"

definition padStart :: "nat \<Rightarrow> char \<Rightarrow> string \<Rightarrow> string" where
  "padStart n c s = replicate (n - length s) c @ s"

text \<open>
  \<open>sort\<close> with the comparator \<open>time(a) - time(b)\<close> is stable: it is the stable sort
  by the time value. The non-null assertion \<open>open_time!\<close> is \<open>the\<close>; it is applied to
  trades that passed the filter only.
\<close>

definition sorted_trades :: "DateFns \<Rightarrow> Trade list \<Rightarrow> Trade list" where
  "sorted_trades d trades = sort_key (\<lambda>t. getTime d (the (open_time t))) (filter has_open_time trades)"

definition timeseries :: "DateFns \<Rightarrow> Trade list \<Rightarrow> Timeseries" where
  "timeseries d trades =
     (let sorted = sorted_trades d trades;
          fullLabels = map (\<lambda>s. toLocaleString d (the (open_time s))) sorted;
          shortLabels = map (\<lambda>s.
             let dt = the (open_time s);
                 dd = padStart 2 CHR ''0'' (digits (getDate d dt));
                 mm = padStart 2 CHR ''0'' (digits (getMonth d dt + 1))
             in dd @ ''/'' @ mm) sorted
      in \<lparr>fullLabels = fullLabels, shortLabels = shortLabels, cum = cum_loop 0 [] sorted\<rparr>)"

subsection \<open>The query for trades\<close>

datatype cmp = Gte | Lte

record Query =
  q_table :: string
  q_columns :: "string option"
  q_order :: "(string \<times> bool) list"
  q_filters :: "(cmp \<times> string \<times> string) list"
  q_limit :: "nat option"
  q_single :: bool

definition from_table :: "string \<Rightarrow> Query" where
  "from_table t =
     \<lparr>q_table = t, q_columns = None, q_order = [], q_filters = [], q_limit = None, q_single = False\<rparr>"

definition select :: "string \<Rightarrow> Query \<Rightarrow> Query" where
  "select cols q = q\<lparr>q_columns := Some cols\<rparr>"

text \<open>\<open>order(column, { ascending })\<close>: the pair holds the column and the flag.\<close>

definition order :: "string \<Rightarrow> bool \<Rightarrow> Query \<Rightarrow> Query" where
  "order col ascending q = q\<lparr>q_order := q_order q @ [(col, ascending)]\<rparr>"

definition gte :: "string \<Rightarrow> string \<Rightarrow> Query \<Rightarrow> Query" where
  "gte col v q = q\<lparr>q_filters := q_filters q @ [(Gte, col, v)]\<rparr>"

definition lte :: "string \<Rightarrow> string \<Rightarrow> Query \<Rightarrow> Query" where
  "lte col v q = q\<lparr>q_filters := q_filters q @ [(Lte, col, v)]\<rparr>"

definition limit :: "nat \<Rightarrow> Query \<Rightarrow> Query" where
  "limit n q = q\<lparr>q_limit := Some n\<rparr>"

definition single :: "Query \<Rightarrow> Query" where
  "single q = q\<lparr>q_single := True\<rparr>"

definition truthy_str :: "string option \<Rightarrow> bool" where
  "truthy_str s = (case s of None \<Rightarrow> False | Some v \<Rightarrow> v \<noteq> [])"

text \<open>
  The query that \<open>fetchTrades(from, to)\<close> of the analysis page awaits; none when the
  client is not configured (\<open>supabase\<close> is null).
\<close>

definition fetchTrades :: "bool \<Rightarrow> string option \<Rightarrow> string option \<Rightarrow> Query option" where
  "fetchTrades configured from to =
     (if \<not> configured then None
      else
        let q = order ''open_time'' True (select ''ticket,profit,open_time'' (from_table ''trades''));
            q = (if truthy_str from then gte ''open_time'' (the from) q else q);
            q = (if truthy_str to then lte ''open_time'' (the to) q else q)
        in Some q)"

section \<open>The dashboard\<close>

text \<open>
  The dashboard's \<open>Trade\<close> has more columns; \<open>close_time\<close> is a string or null. The
  field \<open>indicators\<close> is opaque and kept as text.
\<close>

record DTrade =
  d_ticket :: int
  d_symbol :: string
  d_action :: string
  d_open_price :: real
  d_close_price :: "real option"
  d_profit :: "real option"
  d_open_time :: string
  d_close_time :: "string option"
  d_indicators :: string

definition activeTrades :: "DTrade list \<Rightarrow> DTrade list" where
  "activeTrades trades = filter (\<lambda>t. d_close_time t = None) trades"

definition historyTrades :: "DTrade list \<Rightarrow> DTrade list" where
  "historyTrades trades = filter (\<lambda>t. d_close_time t \<noteq> None) trades"

definition totalClosedProfit :: "DTrade list \<Rightarrow> real" where
  "totalClosedProfit trades =
     foldl (\<lambda>sum t. sum + profit_or_0 (d_profit t)) 0 (historyTrades trades)"

definition winRate_d :: "(real \<Rightarrow> string) \<Rightarrow> DTrade list \<Rightarrow> string" where
  "winRate_d big trades =
     (if length (historyTrades trades) > 0
      then toFixed big 1
             (Fin ((real (length (filter (\<lambda>t. 0 \<le> profit_or_0 (d_profit t)) (historyTrades trades)))
                    / real (length (historyTrades trades))) * 100))
      else ''0'')"

text \<open>The two queries of the dashboard's \<open>fetchData\<close>, in the order it awaits them.\<close>

definition fetchData_trades :: Query where
  "fetchData_trades = order ''open_time'' False (select ''*'' (from_table ''trades''))"

definition fetchData_account :: Query where
  "fetchData_account = single (limit 1 (select ''*'' (from_table ''account_stats'')))"

section \<open>Notions of the specification\<close>

text \<open>The value of a profit for aggregation: an absent profit counts as zero.\<close>

definition spec_profit :: "real option \<Rightarrow> real" where
  "spec_profit p = (case p of None \<Rightarrow> 0 | Some v \<Rightarrow> v)"

text \<open>
  The index that the loop of \<open>makeHistogram profits bins\<close> computes for the value
  \<open>p\<close>: \<open>bucket_index\<close> at the minimum and the bin width of that call.
\<close>

definition assigned_bucket :: "real list \<Rightarrow> int \<Rightarrow> real \<Rightarrow> jsnum" where
  "assigned_bucket profits bins p =
     bucket_index bins (Math_min (map Fin profits))
       (js_div (bin_range profits) (Fin (of_int bins))) p"


text \<open>Replacing a null profit by the number 0, on either kind of trade.\<close>

definition zero_null :: "Trade \<Rightarrow> Trade" where
  "zero_null t = (case profit t of None \<Rightarrow> t\<lparr>profit := Some 0\<rparr> | Some v \<Rightarrow> t)"

definition zero_null_d :: "DTrade \<Rightarrow> DTrade" where
  "zero_null_d t = (case d_profit t of None \<Rightarrow> t\<lparr>d_profit := Some 0\<rparr> | Some v \<Rightarrow> t)"


section \<open>Summary statistics\<close>

lemma profit_or_0_spec: "profit_or_0 p = spec_profit p"
  by (simp add: profit_or_0_def spec_profit_def split: option.splits)





section \<open>The histogram\<close>

subsection \<open>Extrema, range and bin width on finite values\<close>




















lemma makeHistogram_negative: "xs \<noteq> [] \<Longrightarrow> bins < 0 \<Longrightarrow> makeHistogram big xs bins = Inl RangeError"
  by (simp add: makeHistogram_def new_Array_def Let_def)









text \<open>
  C6. On the profits 5, 5, 5 with 4 bins the range is taken as 1, the bin width is
  \<open>1/4\<close>, both divisions have a non-zero divisor, every value goes to bucket 0 and
  the counts are 3, 0, 0, 0.
\<close>

theorem degenerate_range_histogram:
  "bin_range [5, 5, 5] = Fin 1
   \<and> js_div (bin_range [5, 5, 5]) (Fin (of_int 4)) = Fin (1 / 4)
   \<and> js_div (js_sub (Fin 5) (Math_min (map Fin [5, 5, 5]))) (Fin (1 / 4)) = Fin 0
   \<and> assigned_bucket [5, 5, 5] 4 5 = Fin 0
   \<and> map_sum id counts (makeHistogram big [5, 5, 5] 4) = Inr [Count 3, Count 0, Count 0, Count 0]"
  by code_simp

subsection \<open>No bins\<close>





subsection \<open>Labels\<close>





section \<open>The cumulative series\<close>








section \<open>Null profits\<close>

lemma zero_null_fields:
  "open_time (zero_null t) = open_time t"
  "profit_or_0 (profit (zero_null t)) = profit_or_0 (profit t)"
  "has_open_time (zero_null t) = has_open_time t"
  by (simp_all add: zero_null_def has_open_time_def profit_or_0_def split: option.splits)

lemma zero_null_d_fields:
  "d_close_time (zero_null_d t) = d_close_time t"
  "profit_or_0 (d_profit (zero_null_d t)) = profit_or_0 (d_profit t)"
  by (simp_all add: zero_null_d_def profit_or_0_def split: option.splits)

lemma insort_key_map_key:
  "insort_key f (g x) (map g ys) = map g (insort_key (\<lambda>y. f (g y)) x ys)"
  by (induction ys) simp_all

lemma sort_key_map_key: "sort_key f (map g xs) = map g (sort_key (\<lambda>y. f (g y)) xs)"
  by (induction xs) (simp_all add: insort_key_map_key)

lemma sorted_trades_zero_null:
  "sorted_trades d (map zero_null trades) = map zero_null (sorted_trades d trades)"
  by (simp add: sorted_trades_def filter_map comp_def zero_null_fields sort_key_map_key)

lemma cum_loop_zero_null: "cum_loop acc out (map zero_null ss) = cum_loop acc out ss"
  by (induction ss arbitrary: acc out) (simp_all add: zero_null_fields Let_def)

lemma timeseries_zero_null: "timeseries d (map zero_null trades) = timeseries d trades"
  by (simp add: timeseries_def Let_def sorted_trades_zero_null cum_loop_zero_null comp_def
      zero_null_fields)

lemma profits_of_zero_null: "profits_of (map zero_null trades) = profits_of trades"
  by (simp add: profits_of_def comp_def zero_null_fields)

lemma computeStats_profits:
  "computeStats trades =
     (let profits = profits_of trades; n = length profits; s = foldl (\<lambda>s v. s + v) 0 profits
      in \<lparr>total = n, sum_s = s, avg = (if n \<noteq> 0 then s / real n else 0),
          winRate = (if n \<noteq> 0 then (real (length (filter (\<lambda>p. 0 \<le> p) profits)) / real n) * 100 else 0)\<rparr>)"
  by (simp add: computeStats_def profits_of_def Let_def)

lemma computeStats_zero_null: "computeStats (map zero_null trades) = computeStats trades"
  by (simp only: computeStats_profits profits_of_zero_null)

lemma historyTrades_zero_null:
  "historyTrades (map zero_null_d trades) = map zero_null_d (historyTrades trades)"
  by (simp add: historyTrades_def filter_map comp_def zero_null_d_fields)

lemma foldl_profit_sum:
  "foldl (\<lambda>sum t. sum + profit_or_0 (d_profit t)) a ts = a + (\<Sum>t\<leftarrow>ts. spec_profit (d_profit t))"
  by (induction ts arbitrary: a) (simp_all add: profit_or_0_spec)

lemma totalClosedProfit_sum:
  "totalClosedProfit trades = (\<Sum>t\<leftarrow>historyTrades trades. spec_profit (d_profit t))"
  by (simp add: totalClosedProfit_def foldl_profit_sum)

lemma totalClosedProfit_zero_null:
  "totalClosedProfit (map zero_null_d trades) = totalClosedProfit trades"
  by (simp add: totalClosedProfit_sum historyTrades_zero_null comp_def profit_or_0_spec [symmetric]
      zero_null_d_fields)

lemma winRate_d_zero_null: "winRate_d big (map zero_null_d trades) = winRate_d big trades"
  by (simp add: winRate_d_def historyTrades_zero_null filter_map comp_def zero_null_d_fields)

text \<open>
  C8. Replacing every null profit by 0 changes none of: the summary statistics, the
  histogram of the page, the cumulative series, the dashboard's sum of closed profits
  and its win rate. After the replacement no profit is null.
\<close>

theorem null_profit_as_zero:
  "computeStats (map zero_null trades) = computeStats trades
   \<and> histogram big (map zero_null trades) bins = histogram big trades bins
   \<and> timeseries d (map zero_null trades) = timeseries d trades
   \<and> totalClosedProfit (map zero_null_d dtrades) = totalClosedProfit dtrades
   \<and> winRate_d big (map zero_null_d dtrades) = winRate_d big dtrades
   \<and> (\<forall>t \<in> set (map zero_null trades). profit t \<noteq> None)
   \<and> (\<forall>t \<in> set (map zero_null_d dtrades). d_profit t \<noteq> None)"
proof -
  have a: "\<forall>t \<in> set (map zero_null trades). profit t \<noteq> None"
    by (auto simp: zero_null_def split: option.splits)
  have b: "\<forall>t \<in> set (map zero_null_d dtrades). d_profit t \<noteq> None"
    by (auto simp: zero_null_d_def split: option.splits)
  show ?thesis
    using a b
    by (simp only: computeStats_zero_null histogram_def profits_of_zero_null timeseries_zero_null
          totalClosedProfit_zero_null winRate_d_zero_null simp_thms)
qed


theorem null_profit_as_zero_witness:
  "computeStats [\<lparr>ticket = 1, profit = Some 0, open_time = Some ''T0''\<rparr>,
                 \<lparr>ticket = 2, profit = Some (- 5), open_time = None\<rparr>]
     = computeStats [\<lparr>ticket = 1, profit = None, open_time = Some ''T0''\<rparr>,
                     \<lparr>ticket = 2, profit = Some (- 5), open_time = None\<rparr>]
   \<and> profit \<lparr>ticket = 1, profit = Some 0, open_time = Some ''T0''\<rparr> \<noteq> None
   \<and> profit \<lparr>ticket = 2, profit = Some (- 5), open_time = None\<rparr> \<noteq> None"
  using null_profit_as_zero [of "[\<lparr>ticket = 1, profit = None, open_time = Some ''T0''\<rparr>,
                     \<lparr>ticket = 2, profit = Some (- 5), open_time = None\<rparr>]" "\<lambda>_. []" 1
           "\<lparr>getTime = (\<lambda>_. 0), toLocaleString = (\<lambda>s. s), getDate = (\<lambda>_. 1), getMonth = (\<lambda>_. 0)\<rparr>"
           "[]"]
  by (simp add: zero_null_def)

section \<open>Closed trades on the dashboard\<close>

lemma historyTrades_skip:
  "d_close_time t = None \<Longrightarrow> historyTrades (xs @ t # ys) = historyTrades (xs @ ys)"
  by (simp add: historyTrades_def)

lemma historyTrades_idem: "historyTrades (historyTrades trades) = historyTrades trades"
  by (simp add: historyTrades_def)

lemma winRate_d_history: "winRate_d big trades = winRate_d big (historyTrades trades)"
  by (simp only: winRate_d_def historyTrades_idem)

text \<open>
  C9. The dashboard's sum of profits and its win rate are those of the trades whose
  \<open>close_time\<close> is not null; a trade with a null \<open>close_time\<close> is not among the
  history trades, and putting it into the list changes neither the sum nor the win
  rate, whatever its profit.
\<close>

theorem closed_trades_only:
  "historyTrades trades = filter (\<lambda>t. d_close_time t \<noteq> None) trades
   \<and> totalClosedProfit trades
       = (\<Sum>t\<leftarrow>filter (\<lambda>t. d_close_time t \<noteq> None) trades. spec_profit (d_profit t))
   \<and> winRate_d big trades = winRate_d big (filter (\<lambda>t. d_close_time t \<noteq> None) trades)
   \<and> (d_close_time t = None \<longrightarrow>
        t \<notin> set (historyTrades trades)
        \<and> totalClosedProfit (xs @ t # ys) = totalClosedProfit (xs @ ys)
        \<and> winRate_d big (xs @ t # ys) = winRate_d big (xs @ ys))"
proof -
  have h: "historyTrades trades = filter (\<lambda>t. d_close_time t \<noteq> None) trades"
    by (simp add: historyTrades_def)
  have s: "totalClosedProfit trades
       = (\<Sum>t\<leftarrow>filter (\<lambda>t. d_close_time t \<noteq> None) trades. spec_profit (d_profit t))"
    by (simp only: totalClosedProfit_sum h)
  have w: "winRate_d big trades = winRate_d big (filter (\<lambda>t. d_close_time t \<noteq> None) trades)"
    using winRate_d_history [of big trades] by (simp only: h)
  have a: "d_close_time t = None \<longrightarrow>
        t \<notin> set (historyTrades trades)
        \<and> totalClosedProfit (xs @ t # ys) = totalClosedProfit (xs @ ys)
        \<and> winRate_d big (xs @ t # ys) = winRate_d big (xs @ ys)"
  proof
    assume n: "d_close_time t = None"
    have 1: "t \<notin> set (historyTrades trades)" using n by (simp add: historyTrades_def)
    have 2: "totalClosedProfit (xs @ t # ys) = totalClosedProfit (xs @ ys)"
      by (simp only: totalClosedProfit_def historyTrades_skip [OF n])
    have 3: "winRate_d big (xs @ t # ys) = winRate_d big (xs @ ys)"
      by (simp only: winRate_d_def historyTrades_skip [OF n])
    show "t \<notin> set (historyTrades trades)
        \<and> totalClosedProfit (xs @ t # ys) = totalClosedProfit (xs @ ys)
        \<and> winRate_d big (xs @ t # ys) = winRate_d big (xs @ ys)"
      using 1 2 3 by blast
  qed
  show ?thesis using h s w a by blast
qed

theorem closed_trades_only_witness:
  "d_close_time \<lparr>d_ticket = 2, d_symbol = ''XAUUSD'', d_action = ''BUY'', d_open_price = 2000,
       d_close_price = None, d_profit = Some 500, d_open_time = ''T1'', d_close_time = None,
       d_indicators = []\<rparr> = None
   \<and> totalClosedProfit
       [\<lparr>d_ticket = 1, d_symbol = ''XAUUSD'', d_action = ''SELL'', d_open_price = 1990,
         d_close_price = Some 1980, d_profit = Some 10, d_open_time = ''T0'',
         d_close_time = Some ''T2'', d_indicators = []\<rparr>,
        \<lparr>d_ticket = 2, d_symbol = ''XAUUSD'', d_action = ''BUY'', d_open_price = 2000,
         d_close_price = None, d_profit = Some 500, d_open_time = ''T1'', d_close_time = None,
         d_indicators = []\<rparr>] = 10"
proof -
  define c where "c = \<lparr>d_ticket = 1, d_symbol = ''XAUUSD'', d_action = ''SELL'', d_open_price = 1990,
         d_close_price = Some 1980, d_profit = Some 10, d_open_time = ''T0'',
         d_close_time = Some ''T2'', d_indicators = []\<rparr>"
  define a where "a = \<lparr>d_ticket = 2, d_symbol = ''XAUUSD'', d_action = ''BUY'', d_open_price = 2000,
       d_close_price = None, d_profit = Some 500, d_open_time = ''T1'', d_close_time = None,
       d_indicators = []\<rparr>"
  have n: "d_close_time a = None" by (simp add: a_def)
  have "totalClosedProfit ([c] @ a # []) = totalClosedProfit ([c] @ [])"
    using closed_trades_only [of "[]" "\<lambda>_. []" a "[c]" "[]"] n by blast
  moreover have "totalClosedProfit ([c] @ []) = 10"
    using closed_trades_only [of "[c]" "\<lambda>_. []" a "[]" "[]"]
    by (simp add: c_def spec_profit_def)
  ultimately show ?thesis using n unfolding a_def c_def by simp
qed

section \<open>The order of the fetched rows\<close>

text \<open>
  C3, as amended. Every query for trades that the analysis page's \<open>fetchTrades\<close>
  issues asks for ascending \<open>open_time\<close>, whatever the bounds, and it issues one
  whenever the client is configured; the dashboard's \<open>fetchData\<close> asks for the trades
  in descending \<open>open_time\<close>.
\<close>

theorem trades_query_order:
  "(\<forall>q. fetchTrades configured from to = Some q \<longrightarrow>
        q_table q = ''trades'' \<and> q_order q = [(''open_time'', True)])
   \<and> (configured \<longrightarrow> fetchTrades configured from to \<noteq> None)
   \<and> q_table fetchData_trades = ''trades''
   \<and> q_order fetchData_trades = [(''open_time'', False)]"
  by (simp add: fetchTrades_def fetchData_trades_def from_table_def select_def order_def gte_def
      lte_def Let_def)

theorem trades_query_order_witness:
  "fetchTrades True (Some ''2024-01-01'') None \<noteq> None
   \<and> map_option q_order (fetchTrades True (Some ''2024-01-01'') None) = Some [(''open_time'', True)]
   \<and> map_option q_filters (fetchTrades True (Some ''2024-01-01'') None)
       = Some [(Gte, ''open_time'', ''2024-01-01'')]"
proof -
  have f: "map_option q_filters (fetchTrades True (Some ''2024-01-01'') None)
       = Some [(Gte, ''open_time'', ''2024-01-01'')]"
    by (simp add: fetchTrades_def from_table_def select_def order_def gte_def truthy_str_def Let_def)
  then obtain q where q: "fetchTrades True (Some ''2024-01-01'') None = Some q" by blast
  then have "q_order q = [(''open_time'', True)]"
    using trades_query_order [of True "Some ''2024-01-01''" None] by blast
  then show ?thesis using q f by simp
qed

text \<open>
  The claim as stated fails on the dashboard: its query for trades has the ascending
  flag false.
\<close>

theorem dashboard_order_counterexample:
  "q_table fetchData_trades = ''trades''
   \<and> q_order fetchData_trades = [(''open_time'', False)]
   \<and> q_order fetchData_trades \<noteq> [(''open_time'', True)]"
  by (simp add: fetchData_trades_def from_table_def select_def order_def)


end
